theory Spec2Isabelle
  imports Main
begin

section \<open>The authentication and WebSocket server (src/server.js)\<close>

subsection \<open>JavaScript values, objects and Map\<close>

text \<open>
  The handlers never look inside a value of the request body: they read the fields
  \<^verbatim>\<open>userName\<close> and \<^verbatim>\<open>password\<close>, use the first as a key of the Map \<^verbatim>\<open>users\<close> and hand the
  second to \<^verbatim>\<open>hashPassword\<close> or \<^verbatim>\<open>validatePassword\<close>. The defined values are therefore a type
  parameter \<open>'v\<close>, whose equality stands for the SameValueZero comparison of Map keys;
  a field that an object lacks reads as \<^verbatim>\<open>undefined\<close>.
\<close>

datatype 'v jsval = Undefined | Defined 'v

text \<open>An object is the finite table of its own properties.\<close>

type_synonym 'v jsobj = "string \<rightharpoonup> 'v jsval"

text \<open>Reading a property, \<^verbatim>\<open>obj.name\<close> or \<^verbatim>\<open>const { name } = obj\<close>.\<close>

definition get_prop :: "'v jsobj \<Rightarrow> string \<Rightarrow> 'v jsval" where
  "get_prop obj name = (case obj name of None \<Rightarrow> Undefined | Some v \<Rightarrow> v)"

text \<open>
  A JavaScript \<^verbatim>\<open>Map\<close> keeps its entries in insertion order, so it is a list of
  key/value pairs. \<^verbatim>\<open>set\<close> on a key that is present replaces the value in place; on a new
  key it appends the entry.
\<close>

type_synonym ('k, 'a) jsmap = "('k \<times> 'a) list"

definition Map_has :: "('k, 'a) jsmap \<Rightarrow> 'k \<Rightarrow> bool" where
  "Map_has m k = (k \<in> set (map fst m))"

definition Map_get :: "('k, 'a) jsmap \<Rightarrow> 'k \<Rightarrow> 'a option" where
  "Map_get m k = map_of m k"

primrec Map_set :: "('k, 'a) jsmap \<Rightarrow> 'k \<Rightarrow> 'a \<Rightarrow> ('k, 'a) jsmap" where
  "Map_set [] k v = [(k, v)]"
| "Map_set (e # m) k v = (if fst e = k then (k, v) # m else e # Map_set m k v)"

subsection \<open>Responses\<close>

text \<open>
  The body of \<^verbatim>\<open>res.status(n).json(...)\<close> is either \<^verbatim>\<open>{ message: ... }\<close> or
  \<^verbatim>\<open>{ error: ... }\<close>.
\<close>

datatype payload = Message string | Error string

text \<open>
  What a handler answers: \<^verbatim>\<open>res.status(n).json(...)\<close>, \<^verbatim>\<open>res.redirect(path)\<close>,
  \<^verbatim>\<open>res.sendFile(__dirname + name)\<close>, or an exception that leaves the handler.
\<close>

datatype response =
    Json nat payload
  | Redirect string
  | SendFile string
  | Uncaught string

subsection \<open>WebSocket channels\<close>

datatype ready_state = CONNECTING | OPEN | CLOSING | CLOSED

text \<open>
  Of a channel the server sees its state, the frames it has sent on it, and how many
  \<^verbatim>\<open>message\<close> listeners are registered on it.
\<close>

record websocket =
  readyState :: ready_state
  sent :: "string list"
  message_listeners :: nat

text \<open>The process: the Map \<^verbatim>\<open>users\<close>, the channels of \<^verbatim>\<open>wss\<close>, and what was logged.\<close>

record 'v server =
  users :: "('v jsval, 'v jsobj) jsmap"
  clients :: "websocket list"
  console :: "(string \<times> string) list"

definition init :: "'v server" where
  "init = \<lparr>users = [], clients = [], console = []\<rparr>"

subsection \<open>The route handlers\<close>

text \<open>
  \<^verbatim>\<open>hashPassword\<close> and \<^verbatim>\<open>validatePassword\<close> are called by the handlers and defined nowhere in
  the repository; they are parameters here. \<open>validatePassword\<close> is the truth value the
  \<^verbatim>\<open>if\<close> makes of the result.
\<close>

definition post_register ::
  "('v jsval \<Rightarrow> 'v jsval) \<Rightarrow> 'v server \<Rightarrow> 'v jsobj \<Rightarrow> 'v server \<times> response" where
  "post_register hashPassword s user =
     (let userName = get_prop user ''userName''; password = get_prop user ''password'' in
      if Map_has (users s) userName
      then (s, Json 400 (Error ''Username already taken''))
      else (s\<lparr>users := Map_set (users s) userName (user(''password'' \<mapsto> hashPassword password))\<rparr>,
            Json 200 (Message ''Registration successful! Please log in.'')))"

definition post_login ::
  "('v jsval \<Rightarrow> 'v jsval \<Rightarrow> bool) \<Rightarrow> 'v server \<Rightarrow> 'v jsobj \<Rightarrow> 'v server \<times> response" where
  "post_login validatePassword s body =
     (let userName = get_prop body ''userName''; password = get_prop body ''password'' in
      if Map_has (users s) userName
      then (case Map_get (users s) userName of
              None \<Rightarrow> (s, Uncaught ''TypeError'')
            | Some user \<Rightarrow>
                if validatePassword password (get_prop user ''password'')
                then (s, Json 200 (Message ''Login successful!''))
                else (s, Json 400 (Error ''Invalid password'')))
      else (s, Json 400 (Error ''Invalid username'')))"

definition get_logout :: "'v server \<Rightarrow> 'v server \<times> response" where
  "get_logout s = (s, Json 200 (Message ''Logout successful!''))"

definition get_profile :: "'v server \<Rightarrow> 'v server \<times> response" where
  "get_profile s = (s, Json 200 (Message ''Profile settings''))"

definition get_groups :: "'v server \<Rightarrow> 'v server \<times> response" where
  "get_groups s = (s, Json 200 (Message ''Interest groups''))"

definition get_root :: "'v server \<Rightarrow> 'v server \<times> response" where
  "get_root s = (s, Redirect ''/login'')"

definition get_register :: "'v server \<Rightarrow> 'v server \<times> response" where
  "get_register s = (s, SendFile ''/register.html'')"

definition get_login :: "'v server \<Rightarrow> 'v server \<times> response" where
  "get_login s = (s, SendFile ''/login.html'')"

subsection \<open>The WebSocket handler\<close>

text \<open>
  \<^verbatim>\<open>JSON.stringify({ message: 'WebSocket connection established' })\<close>, the text of the
  frame.
\<close>

definition handshake :: string where
  \<open>handshake = ''{"message":"WebSocket connection established"}''\<close>

text \<open>\<^verbatim>\<open>ws.send(data)\<close> puts a frame on an open channel; on any other channel no frame leaves.\<close>

definition ws_send :: "websocket \<Rightarrow> string \<Rightarrow> websocket" where
  "ws_send ws data = (if readyState ws = OPEN then ws\<lparr>sent := sent ws @ [data]\<rparr> else ws)"

text \<open>\<^verbatim>\<open>ws.on('message', ...)\<close> registers one more listener.\<close>

definition ws_on_message :: "websocket \<Rightarrow> websocket" where
  "ws_on_message ws = ws\<lparr>message_listeners := Suc (message_listeners ws)\<rparr>"

text \<open>The callback of \<^verbatim>\<open>wss.on('connection', ...)\<close>: it sends the handshake, then listens.\<close>

definition on_connection :: "websocket \<Rightarrow> websocket" where
  "on_connection ws = ws_on_message (ws_send ws handshake)"

text \<open>The listener: \<^verbatim>\<open>console.log('Received message:', message)\<close>, and nothing else.\<close>

definition on_message :: "'v server \<Rightarrow> string \<Rightarrow> 'v server" where
  "on_message s message = s\<lparr>console := console s @ [(''Received message:'', message)]\<rparr>"

subsection \<open>The server as a transition system\<close>

text \<open>
  One event is one HTTP request on a route of \<^verbatim>\<open>app\<close>, a client that has completed the
  WebSocket handshake with \<^verbatim>\<open>wss\<close>, or a frame that arrives on the channel with the given
  index.
\<close>

datatype 'v event =
    GetRoot
  | GetRegister
  | PostRegister "'v jsobj"
  | GetLogin
  | PostLogin "'v jsobj"
  | GetLogout
  | GetProfile
  | GetGroups
  | Connection
  | Frame nat string

text \<open>A channel is handed to the connection callback open, with nothing sent and no listener.\<close>

definition new_websocket :: websocket where
  "new_websocket = \<lparr>readyState = OPEN, sent = [], message_listeners = 0\<rparr>"

text \<open>An arriving frame runs every listener registered on its channel.\<close>

definition deliver :: "'v server \<Rightarrow> nat \<Rightarrow> string \<Rightarrow> 'v server" where
  "deliver s i message =
     (if i < length (clients s) \<and> readyState (clients s ! i) = OPEN
      then ((\<lambda>s. on_message s message) ^^ message_listeners (clients s ! i)) s
      else s)"

fun step ::
  "('v jsval \<Rightarrow> 'v jsval) \<Rightarrow> ('v jsval \<Rightarrow> 'v jsval \<Rightarrow> bool) \<Rightarrow>
   'v server \<Rightarrow> 'v event \<Rightarrow> 'v server \<times> response option" where
  "step h v s GetRoot = map_prod id Some (get_root s)"
| "step h v s GetRegister = map_prod id Some (get_register s)"
| "step h v s (PostRegister user) = map_prod id Some (post_register h s user)"
| "step h v s GetLogin = map_prod id Some (get_login s)"
| "step h v s (PostLogin body) = map_prod id Some (post_login v s body)"
| "step h v s GetLogout = map_prod id Some (get_logout s)"
| "step h v s GetProfile = map_prod id Some (get_profile s)"
| "step h v s GetGroups = map_prod id Some (get_groups s)"
| "step h v s Connection = (s\<lparr>clients := clients s @ [on_connection new_websocket]\<rparr>, None)"
| "step h v s (Frame i message) = (deliver s i message, None)"

text \<open>The state after a sequence of events.\<close>

fun run ::
  "('v jsval \<Rightarrow> 'v jsval) \<Rightarrow> ('v jsval \<Rightarrow> 'v jsval \<Rightarrow> bool) \<Rightarrow>
   'v server \<Rightarrow> 'v event list \<Rightarrow> 'v server" where
  "run h v s [] = s"
| "run h v s (e # es) = run h v (fst (step h v s e)) es"

subsection \<open>The requests of a sample session\<close>

text \<open>
  Three request bodies: \<^verbatim>\<open>{"userName":"alice","password":"pw1"}\<close>, the same user with the
  password \<^verbatim>\<open>"bad"\<close>, and a user \<^verbatim>\<open>"bob"\<close> who never registers. In the sample session
  \<^verbatim>\<open>hashPassword\<close> is the identity and \<^verbatim>\<open>validatePassword\<close> is equality.
\<close>

definition alice_pw1 :: "string jsobj" where
  "alice_pw1 = [''userName'' \<mapsto> Defined ''alice'', ''password'' \<mapsto> Defined ''pw1'']"

definition alice_bad :: "string jsobj" where
  "alice_bad = [''userName'' \<mapsto> Defined ''alice'', ''password'' \<mapsto> Defined ''bad'']"

definition bob_x :: "string jsobj" where
  "bob_x = [''userName'' \<mapsto> Defined ''bob'', ''password'' \<mapsto> Defined ''x'']"

section \<open>Properties\<close>

subsection \<open>The Map\<close>

lemma Map_has_get: "Map_has m k \<longleftrightarrow> Map_get m k \<noteq> None"
  by (simp add: Map_has_def Map_get_def map_of_eq_None_iff)

lemma Map_get_set: "Map_get (Map_set m k v) k' = (if k' = k then Some v else Map_get m k')"
  by (induction m) (auto simp: Map_get_def)

lemma Map_has_set: "Map_has (Map_set m k v) k' \<longleftrightarrow> k' = k \<or> Map_has m k'"
  by (simp add: Map_has_get Map_get_set)

lemma Map_set_new: "\<not> Map_has m k \<Longrightarrow> Map_set m k v = m @ [(k, v)]"
  by (induction m) (auto simp: Map_has_def)

lemma keys_Map_set:
  "map fst (Map_set m k v) = (if Map_has m k then map fst m else map fst m @ [k])"
  by (induction m) (auto simp: Map_has_def)

lemma distinct_Map_set: "distinct (map fst m) \<Longrightarrow> distinct (map fst (Map_set m k v))"
  by (simp add: keys_Map_set Map_has_def)

lemma distinct_keys_at_most_one:
  "distinct (map fst m) \<Longrightarrow> length (filter (\<lambda>e. fst e = u) m) \<le> 1"
proof (induction m)
  case Nil
  then show ?case by simp
next
  case (Cons e m)
  show ?case
  proof (cases "fst e = u")
    case True
    with Cons.prems have "u \<notin> fst ` set m" by auto
    then have "filter (\<lambda>e. fst e = u) m = []"
      by (auto simp: filter_empty_conv)
    with True show ?thesis by simp
  next
    case False
    with Cons show ?thesis by simp
  qed
qed

subsection \<open>What one event changes\<close>

lemma on_message_pow:
  "users (((\<lambda>s. on_message s m) ^^ n) s) = users s \<and>
   clients (((\<lambda>s. on_message s m) ^^ n) s) = clients s"
  by (induction n) (simp_all add: on_message_def)

lemma deliver_frame: "users (deliver s i m) = users s \<and> clients (deliver s i m) = clients s"
  by (simp add: deliver_def on_message_pow)

lemma users_step:
  "users (fst (step h v s e)) =
     (case e of PostRegister user \<Rightarrow> users (fst (post_register h s user)) | _ \<Rightarrow> users s)"
  by (cases e)
     (simp_all add: get_root_def get_register_def get_login_def get_logout_def get_profile_def
        get_groups_def post_login_def Let_def deliver_frame split: option.splits)

lemma clients_step:
  "clients (fst (step h v s e)) =
     (if e = Connection then clients s @ [on_connection new_websocket] else clients s)"
  by (cases e)
     (simp_all add: get_root_def get_register_def get_login_def get_logout_def get_profile_def
        get_groups_def post_login_def post_register_def Let_def deliver_frame
        split: option.splits)

lemma clients_run:
  "clients (run h v s es) =
     clients s @ replicate (length (filter (\<lambda>e. e = Connection) es)) (on_connection new_websocket)"
  by (induction es arbitrary: s) (simp_all add: clients_step replicate_append_same)

lemma users_post_register:
  "users (fst (post_register h s user)) =
     (if Map_has (users s) (get_prop user ''userName'') then users s
      else Map_set (users s) (get_prop user ''userName'')
             (user(''password'' \<mapsto> h (get_prop user ''password''))))"
  by (simp add: post_register_def Let_def)

lemma get_stable_step:
  assumes "Map_get (users s) k = Some r"
  shows "Map_get (users (fst (step h v s e))) k = Some r"
proof (cases e)
  case (PostRegister user)
  show ?thesis
  proof (cases "Map_has (users s) (get_prop user ''userName'')")
    case True
    with assms PostRegister show ?thesis by (simp add: users_post_register)
  next
    case False
    with assms have "get_prop user ''userName'' \<noteq> k" by (auto simp: Map_has_get)
    with assms False PostRegister show ?thesis
      by (simp add: users_post_register Map_get_set)
  qed
qed (use assms in \<open>simp_all add: users_step del: step.simps\<close>)

lemma get_stable_run:
  "Map_get (users s) k = Some r \<Longrightarrow> Map_get (users (run h v s es)) k = Some r"
  by (induction es arbitrary: s) (simp_all add: get_stable_step)

lemma distinct_step:
  "distinct (map fst (users s)) \<Longrightarrow> distinct (map fst (users (fst (step h v s e))))"
  by (simp add: users_step users_post_register distinct_Map_set split: event.splits)

lemma distinct_run:
  "distinct (map fst (users s)) \<Longrightarrow> distinct (map fst (users (run h v s es)))"
  by (induction es arbitrary: s) (simp_all add: distinct_step)

subsection \<open>Login\<close>

text \<open>
  Claim C1. The username of a request is its \<^verbatim>\<open>userName\<close> field. A login whose username
  is not a key of \<^verbatim>\<open>users\<close> is answered 400 \<^verbatim>\<open>{error:"Invalid username"}\<close>. A login whose
  username is a key has a stored record; it is answered 400 \<^verbatim>\<open>{error:"Invalid password"}\<close>
  when \<^verbatim>\<open>validatePassword\<close> rejects the submitted password against the record's
  \<^verbatim>\<open>password\<close>, and 200 \<^verbatim>\<open>{message:"Login successful!"}\<close> otherwise. No other answer
  occurs.
\<close>

theorem login_response:
  "(\<not> Map_has (users s) (get_prop body ''userName'') \<longrightarrow>
      post_login v s body = (s, Json 400 (Error ''Invalid username''))) \<and>
   (Map_has (users s) (get_prop body ''userName'') \<longrightarrow>
      (\<exists>user. Map_get (users s) (get_prop body ''userName'') = Some user \<and>
         (\<not> v (get_prop body ''password'') (get_prop user ''password'') \<longrightarrow>
            post_login v s body = (s, Json 400 (Error ''Invalid password''))) \<and>
         (v (get_prop body ''password'') (get_prop user ''password'') \<longrightarrow>
            post_login v s body = (s, Json 200 (Message ''Login successful!'')))))"
  by (auto simp: post_login_def Map_has_get)

text \<open>
  The three cases on the sample session: bob is unknown, alice's password is wrong,
  alice's password is right.
\<close>

theorem login_response_witness:
  "post_login (=) (fst (post_register id init alice_pw1)) bob_x =
     (fst (post_register id init alice_pw1), Json 400 (Error ''Invalid username'')) \<and>
   post_login (=) (fst (post_register id init alice_pw1)) alice_bad =
     (fst (post_register id init alice_pw1), Json 400 (Error ''Invalid password'')) \<and>
   post_login (=) (fst (post_register id init alice_pw1)) alice_pw1 =
     (fst (post_register id init alice_pw1), Json 200 (Message ''Login successful!''))"
proof -
  let ?s = "fst (post_register id init alice_pw1)"
  have absent: "\<not> Map_has (users ?s) (get_prop bob_x ''userName'')"
    by (simp add: bob_x_def alice_pw1_def alice_bad_def get_prop_def init_def Map_has_def
        Map_get_def post_register_def post_login_def Let_def)
  have present: "Map_has (users ?s) (get_prop alice_pw1 ''userName'')"
    "Map_has (users ?s) (get_prop alice_bad ''userName'')"
    by (simp_all add: bob_x_def alice_pw1_def alice_bad_def get_prop_def init_def Map_has_def
        Map_get_def post_register_def post_login_def Let_def)
  have stored: "Map_get (users ?s) (get_prop alice_pw1 ''userName'') = Some (alice_pw1(''password'' \<mapsto> id (Defined ''pw1'')))"
    "Map_get (users ?s) (get_prop alice_bad ''userName'') = Some (alice_pw1(''password'' \<mapsto> id (Defined ''pw1'')))"
    by (simp_all add: bob_x_def alice_pw1_def alice_bad_def get_prop_def init_def Map_has_def
        Map_get_def post_register_def post_login_def Let_def)
  from absent login_response [of ?s bob_x "(=)"] have 1: "post_login (=) ?s bob_x = (?s, Json 400 (Error ''Invalid username''))"
    by blast
  from present(2) stored(2) login_response [of ?s alice_bad "(=)"]
  have 2: "post_login (=) ?s alice_bad = (?s, Json 400 (Error ''Invalid password''))"
    by (simp add: get_prop_def alice_bad_def)
  from present(1) stored(1) login_response [of ?s alice_pw1 "(=)"]
  have 3: "post_login (=) ?s alice_pw1 = (?s, Json 200 (Message ''Login successful!''))"
    by (simp add: get_prop_def alice_pw1_def)
  from 1 2 3 show ?thesis by blast
qed

text \<open>
  Claim C9. A login, whatever its username and password, leaves the Map \<^verbatim>\<open>users\<close> as it
  was.
\<close>

theorem login_store_unchanged:
  "users (fst (post_login v s body)) = users s \<and>
   users (fst (step h v s (PostLogin body))) = users s"
  by (simp add: post_login_def Let_def split: option.splits)

subsection \<open>Registration\<close>

text \<open>
  Claim C2. A registration is answered 400 \<^verbatim>\<open>{error:"Username already taken"}\<close> exactly
  when its username is a key of \<^verbatim>\<open>users\<close>. Otherwise it is answered 200
  \<^verbatim>\<open>{message:"Registration successful! Please log in."}\<close> and appends one entry to the Map:
  the request body with its \<^verbatim>\<open>password\<close> replaced by \<^verbatim>\<open>hashPassword(password)\<close>. From then
  on, after any further events, a registration under the same username is answered 400.
\<close>

theorem register_response:
  "(snd (post_register h s user) = Json 400 (Error ''Username already taken'') \<longleftrightarrow>
      Map_has (users s) (get_prop user ''userName'')) \<and>
   (\<not> Map_has (users s) (get_prop user ''userName'') \<longrightarrow>
      snd (post_register h s user) = Json 200 (Message ''Registration successful! Please log in.'') \<and>
      users (fst (post_register h s user)) =
        users s @ [(get_prop user ''userName'', user(''password'' \<mapsto> h (get_prop user ''password'')))] \<and>
      (\<exists>record. Map_get (users (fst (post_register h s user))) (get_prop user ''userName'') = Some record \<and>
         get_prop record ''password'' = h (get_prop user ''password'')) \<and>
      (\<forall>es user2. get_prop user2 ''userName'' = get_prop user ''userName'' \<longrightarrow>
         snd (post_register h (run h v (fst (post_register h s user)) es) user2) =
           Json 400 (Error ''Username already taken'')))"
proof -
  let ?u = "get_prop user ''userName''"
  let ?r = "user(''password'' \<mapsto> h (get_prop user ''password''))"
  have fails: "snd (post_register h s user) = Json 400 (Error ''Username already taken'') \<longleftrightarrow>
      Map_has (users s) ?u"
    by (simp add: post_register_def Let_def)
  have ok: "snd (post_register h s user) = Json 200 (Message ''Registration successful! Please log in.'')"
    if "\<not> Map_has (users s) ?u"
    using that by (simp add: post_register_def Let_def)
  have stored: "users (fst (post_register h s user)) = users s @ [(?u, ?r)]"
    if "\<not> Map_has (users s) ?u"
    using that by (simp add: users_post_register Map_set_new)
  have got: "Map_get (users (fst (post_register h s user))) ?u = Some ?r"
    if "\<not> Map_has (users s) ?u"
    using that by (simp add: users_post_register Map_get_set)
  have again: "snd (post_register h (run h v (fst (post_register h s user)) es) user2) =
           Json 400 (Error ''Username already taken'')"
    if "\<not> Map_has (users s) ?u" and "get_prop user2 ''userName'' = ?u" for es user2
  proof -
    have "Map_get (users (run h v (fst (post_register h s user)) es)) ?u = Some ?r"
      using got [OF that(1)] by (rule get_stable_run)
    then have "Map_has (users (run h v (fst (post_register h s user)) es)) ?u"
      by (simp add: Map_has_get)
    with that(2) show ?thesis by (simp add: post_register_def Let_def)
  qed
  have pw: "get_prop ?r ''password'' = h (get_prop user ''password'')"
    by (simp add: get_prop_def)
  from fails ok stored got again pw show ?thesis by blast
qed

text \<open>
  On the sample session: alice is new to the empty Map and is stored; after a login and a
  logout, a second registration as alice with another password is refused.
\<close>

theorem register_response_witness:
  "\<not> Map_has (users (init :: string server)) (get_prop alice_pw1 ''userName'') \<and>
   snd (post_register id init alice_pw1) = Json 200 (Message ''Registration successful! Please log in.'') \<and>
   map fst (users (fst (post_register id init alice_pw1))) = [Defined ''alice''] \<and>
   snd (post_register id (run id (=) (fst (post_register id init alice_pw1)) [PostLogin alice_pw1, GetLogout]) alice_bad) =
     Json 400 (Error ''Username already taken'')"
proof -
  have new: "\<not> Map_has (users (init :: string server)) (get_prop alice_pw1 ''userName'')"
    by (simp add: init_def Map_has_def)
  have same: "get_prop alice_bad ''userName'' = get_prop alice_pw1 ''userName''"
    by (simp add: alice_pw1_def alice_bad_def get_prop_def init_def Map_has_def
        Map_get_def post_register_def post_login_def Let_def)
  note r = register_response [of id init alice_pw1 "(=)"]
  from new r have ok: "snd (post_register id init alice_pw1) =
      Json 200 (Message ''Registration successful! Please log in.'')"
    by blast
  from new r have "users (fst (post_register id init alice_pw1)) =
      users init @ [(get_prop alice_pw1 ''userName'',
        alice_pw1(''password'' \<mapsto> id (get_prop alice_pw1 ''password'')))]"
    by blast
  then have keys: "map fst (users (fst (post_register id init alice_pw1))) = [Defined ''alice'']"
    by (simp add: init_def get_prop_def alice_pw1_def)
  from new same r have again:
    "snd (post_register id (run id (=) (fst (post_register id init alice_pw1))
        [PostLogin alice_pw1, GetLogout]) alice_bad) = Json 400 (Error ''Username already taken'')"
    by blast
  from new ok keys again show ?thesis by blast
qed

text \<open>
  Claim C3. Let \<^verbatim>\<open>validatePassword\<close> accept every password against its own hash and reject
  every other password against it. After a successful registration, and after any further
  events, a login under the registered username is answered 200 with the registered
  password and 400 \<^verbatim>\<open>{error:"Invalid password"}\<close> with any other.
\<close>

theorem register_then_login:
  assumes accepts: "\<forall>raw. v raw (h raw)"
    and rejects: "\<forall>raw wrong. wrong \<noteq> raw \<longrightarrow> \<not> v wrong (h raw)"
    and registered: "snd (post_register h s user) = Json 200 (Message ''Registration successful! Please log in.'')"
    and same_name: "get_prop body ''userName'' = get_prop user ''userName''"
  shows "(get_prop body ''password'' = get_prop user ''password'' \<longrightarrow>
            snd (post_login v (run h v (fst (post_register h s user)) es) body) =
              Json 200 (Message ''Login successful!'')) \<and>
         (get_prop body ''password'' \<noteq> get_prop user ''password'' \<longrightarrow>
            snd (post_login v (run h v (fst (post_register h s user)) es) body) =
              Json 400 (Error ''Invalid password''))"
proof -
  let ?u = "get_prop user ''userName''"
  let ?r = "user(''password'' \<mapsto> h (get_prop user ''password''))"
  let ?s = "run h v (fst (post_register h s user)) es"
  from registered have new: "\<not> Map_has (users s) ?u"
    by (auto simp: post_register_def Let_def split: if_splits)
  then have "Map_get (users (fst (post_register h s user))) ?u = Some ?r"
    by (simp add: users_post_register Map_get_set)
  then have got: "Map_get (users ?s) ?u = Some ?r"
    by (rule get_stable_run)
  then have has: "Map_has (users ?s) ?u"
    by (simp add: Map_has_get)
  have pw: "get_prop ?r ''password'' = h (get_prop user ''password'')"
    by (simp add: get_prop_def)
  from accepts rejects show ?thesis
    by (simp add: post_login_def Let_def same_name has got pw)
qed

text \<open>
  With the identity as hash and equality as check: alice registers, a profile request and
  a new channel follow, and her logins with \<^verbatim>\<open>"pw1"\<close> and with \<^verbatim>\<open>"bad"\<close> are answered 200
  and 400.
\<close>

theorem register_then_login_witness:
  "snd (post_register id init alice_pw1) = Json 200 (Message ''Registration successful! Please log in.'') \<and>
   snd (post_login (=) (run id (=) (fst (post_register id init alice_pw1)) [GetProfile, Connection]) alice_pw1) =
     Json 200 (Message ''Login successful!'') \<and>
   snd (post_login (=) (run id (=) (fst (post_register id init alice_pw1)) [GetProfile, Connection]) alice_bad) =
     Json 400 (Error ''Invalid password'')"
proof -
  have accepts: "\<forall>raw :: string jsval. raw = id raw"
    by simp
  have rejects: "\<forall>(raw :: string jsval) wrong. wrong \<noteq> raw \<longrightarrow> \<not> wrong = id raw"
    by simp
  have registered: "snd (post_register id init alice_pw1) = Json 200 (Message ''Registration successful! Please log in.'')"
    by (simp add: alice_pw1_def alice_bad_def get_prop_def init_def Map_has_def
        Map_get_def post_register_def post_login_def Let_def)
  have same: "get_prop alice_pw1 ''userName'' = get_prop alice_pw1 ''userName''"
    "get_prop alice_bad ''userName'' = get_prop alice_pw1 ''userName''"
    by (simp_all add: alice_pw1_def alice_bad_def get_prop_def init_def Map_has_def
        Map_get_def post_register_def post_login_def Let_def)
  have pw: "get_prop alice_pw1 ''password'' = get_prop alice_pw1 ''password''"
    "get_prop alice_bad ''password'' \<noteq> get_prop alice_pw1 ''password''"
    by (simp_all add: alice_pw1_def alice_bad_def get_prop_def init_def Map_has_def
        Map_get_def post_register_def post_login_def Let_def)
  from register_then_login [OF accepts rejects registered same(1), of "[GetProfile, Connection]"]
    register_then_login [OF accepts rejects registered same(2), of "[GetProfile, Connection]"]
    registered pw
  show ?thesis by blast
qed

text \<open>
  Claim C4. From the empty Map, after any sequence of events, the keys of \<^verbatim>\<open>users\<close> are
  pairwise distinct: no username has more than one entry.
\<close>

theorem username_uniqueness:
  "distinct (map fst (users (run h v init es))) \<and>
   length (filter (\<lambda>e. fst e = u) (users (run h v init es))) \<le> 1"
proof -
  have "distinct (map fst (users (init :: 'a server)))"
    by (simp add: init_def)
  then have "distinct (map fst (users (run h v init es)))"
    by (rule distinct_run)
  then show ?thesis
    using distinct_keys_at_most_one [of "users (run h v init es)" u] by blast
qed

text \<open>
  Claim C6. A registration answered 400 \<^verbatim>\<open>{error:"Username already taken"}\<close> returns the
  state it was given: the Map \<^verbatim>\<open>users\<close>, entry for entry, and everything else.
\<close>

theorem register_duplicate_unchanged:
  "snd (post_register h s user) = Json 400 (Error ''Username already taken'') \<Longrightarrow>
   fst (post_register h s user) = s"
  by (simp add: post_register_def Let_def split: if_splits)

text \<open>
  Alice is registered; a second registration as alice is refused and changes nothing.
\<close>

theorem register_duplicate_unchanged_witness:
  "snd (post_register id (fst (post_register id init alice_pw1)) alice_bad) =
     Json 400 (Error ''Username already taken'') \<and>
   fst (post_register id (fst (post_register id init alice_pw1)) alice_bad) =
     fst (post_register id init alice_pw1)"
proof -
  have fails: "snd (post_register id (fst (post_register id init alice_pw1)) alice_bad) =
     Json 400 (Error ''Username already taken'')"
    by (simp add: alice_pw1_def alice_bad_def get_prop_def init_def Map_has_def
        Map_get_def post_register_def post_login_def Let_def)
  from fails register_duplicate_unchanged [OF fails] show ?thesis by blast
qed

subsection \<open>Logout, profile and groups\<close>

text \<open>
  Claim C8. In every state a logout is answered 200 \<^verbatim>\<open>{message:"Logout successful!"}\<close>
  and returns the state it was given, so a second logout has the same answer and the same
  state as the first.
\<close>

theorem logout_idempotent:
  "get_logout s = (s, Json 200 (Message ''Logout successful!'')) \<and>
   get_logout (fst (get_logout s)) = get_logout s \<and>
   step h v s GetLogout = (s, Some (Json 200 (Message ''Logout successful!'')))"
  by (simp add: get_logout_def)

text \<open>
  Claim C10. In every state, the initial one with no user among them, the profile route is
  answered 200 \<^verbatim>\<open>{message:"Profile settings"}\<close> and the groups route 200
  \<^verbatim>\<open>{message:"Interest groups"}\<close>; neither looks at the state and neither changes it.
\<close>

theorem profile_groups_open:
  "get_profile s = (s, Json 200 (Message ''Profile settings'')) \<and>
   get_groups s = (s, Json 200 (Message ''Interest groups'')) \<and>
   step h v init GetProfile = (init, Some (Json 200 (Message ''Profile settings''))) \<and>
   step h v init GetGroups = (init, Some (Json 200 (Message ''Interest groups'')))"
  by (simp add: get_profile_def get_groups_def)

subsection \<open>The handshake of a channel\<close>

text \<open>
  Claim C7. A connection adds one open channel on which exactly one frame has been sent,
  the text \<^verbatim>\<open>{"message":"WebSocket connection established"}\<close>, whatever the state of
  \<^verbatim>\<open>users\<close>. No later event sends a frame: after any sequence of events every channel
  opened in it has sent that text and nothing else, and the older channels have sent what
  they had sent before.
\<close>

theorem handshake_first_and_only:
  \<open>clients (fst (step h v s Connection)) =
     clients s @ [\<lparr>readyState = OPEN,
                    sent = [''{"message":"WebSocket connection established"}''],
                    message_listeners = 1\<rparr>] \<and>
   map sent (clients (run h v s es)) =
     map sent (clients s) @
       replicate (length (filter (\<lambda>e. e = Connection) es))
         [''{"message":"WebSocket connection established"}'']\<close>
  by (simp add: clients_run on_connection_def new_websocket_def ws_send_def ws_on_message_def
        handshake_def)

end
